theory Spec2Isabelle
  imports Main "HOL-Library.Word" "HOL-Library.Sublist"
begin

section \<open>JavaScript strings\<close>

text \<open>
  A JavaScript string is a sequence of UTF-16 code units. \<open>js\<close> embeds an ASCII
  literal. \<open>trim\<close> is \<^verbatim>\<open>String.prototype.trim\<close>: it strips the ECMAScript
  WhiteSpace and LineTerminator code units from both ends.
\<close>

type_synonym jsstring = "16 word list"

definition js :: "string \<Rightarrow> jsstring" where
  "js s = map of_char s"

definition isWhiteSpace :: "16 word \<Rightarrow> bool" where
  "isWhiteSpace c \<longleftrightarrow>
     c = 0x09 \<or> c = 0x0A \<or> c = 0x0B \<or> c = 0x0C \<or> c = 0x0D \<or> c = 0x20 \<or> c = 0xA0 \<or>
     c = 0x1680 \<or> (0x2000 \<le> c \<and> c \<le> 0x200A) \<or> c = 0x2028 \<or> c = 0x2029 \<or>
     c = 0x202F \<or> c = 0x205F \<or> c = 0x3000 \<or> c = 0xFEFF"

definition trim :: "jsstring \<Rightarrow> jsstring" where
  "trim s = rev (dropWhile isWhiteSpace (rev (dropWhile isWhiteSpace s)))"

text \<open>\<^verbatim>\<open>Array.prototype.join\<close> on an array of strings.\<close>

fun join :: "jsstring \<Rightarrow> jsstring list \<Rightarrow> jsstring" where
  "join sep [] = []"
| "join sep [x] = x"
| "join sep (x # y # ys) = x @ sep @ join sep (y # ys)"

text \<open>Decimal rendering of a non-negative integer, as a template literal prints it.\<close>

fun showNat :: "nat \<Rightarrow> jsstring" where
  "showNat n =
     (if n < 10 then [of_nat (48 + n)]
      else showNat (n div 10) @ [of_nat (48 + n mod 10)])"

declare showNat.simps [simp del]

section \<open>Values produced by JSON.parse\<close>

text \<open>
  The value \<^verbatim>\<open>JSON.parse(line)\<close> returns. Numbers are kept as integers: the
  handlers never compute with them, they only matter as values that are not strings.
  A \<open>jsval\<close> is such a value or \<^verbatim>\<open>undefined\<close> (\<open>None\<close>).
\<close>

datatype json =
    JNull
  | JBool bool
  | JNum int
  | JStr jsstring
  | JArr "json list"
  | JObj "(jsstring \<times> json) list"

type_synonym jsval = "json option"

text \<open>
  Reading one of the properties \<^verbatim>\<open>type\<close>, \<^verbatim>\<open>text\<close>, \<^verbatim>\<open>error\<close> of a value
  other than \<^verbatim>\<open>null\<close>: an object yields its own property (the last occurrence of a
  repeated key wins in JSON.parse), every other value yields \<^verbatim>\<open>undefined\<close>, since
  no prototype defines these three names.
\<close>

fun getProp :: "json \<Rightarrow> jsstring \<Rightarrow> jsval" where
  "getProp (JObj kvs) k = map_of (rev kvs) k"
| "getProp _ k = None"

text \<open>JavaScript truthiness.\<close>

fun truthy :: "jsval \<Rightarrow> bool" where
  "truthy None = False"
| "truthy (Some JNull) = False"
| "truthy (Some (JBool b)) = b"
| "truthy (Some (JNum n)) = (n \<noteq> 0)"
| "truthy (Some (JStr s)) = (s \<noteq> [])"
| "truthy (Some (JArr xs)) = True"
| "truthy (Some (JObj kvs)) = True"

section \<open>Data model\<close>

record PromptRecord =
  rec_id :: nat
  rec_createdAt :: jsstring
  rec_text :: jsstring

record RunRecord =
  run_id :: nat
  run_promptId :: nat
  run_command :: jsstring
  run_windowName :: "jsstring option"
  run_createdAt :: jsstring

text \<open>
  \<^verbatim>\<open>AppState\<close>. \<open>lastPartial\<close> is declared \<^verbatim>\<open>string | undefined\<close>, but the event
  handler stores \<^verbatim>\<open>evt.text\<close> unchecked, so at run time it holds any parsed value.
  \<open>recorder\<close> refers to a \<^verbatim>\<open>RecorderProcess\<close> object by its index in the table of
  spawned processes.
\<close>

record AppState =
  currentPrompt :: jsstring
  activePromptId :: "nat option"
  createdAt :: "jsstring option"
  lastPartial :: jsval
  isRecording :: bool
  isEditing :: bool
  historyOpen :: bool
  modelPath :: jsstring
  lastRun :: "RunRecord option"
  recorder :: "nat option"

text \<open>
  One spawned helper: the command line it was spawned with, the \<^verbatim>\<open>lastStderr\<close>
  field of its \<^verbatim>\<open>RecorderProcess\<close> object, and the signals sent to it by
  \<^verbatim>\<open>proc.kill\<close>.
\<close>

record RecorderProcess =
  spawnCommand :: jsstring
  spawnArgs :: "jsstring list"
  lastStderr :: jsstring
  signals :: "jsstring list"

text \<open>
  The prompts table: its rows in insertion order and the AUTOINCREMENT sequence
  (the largest row id handed out so far).
\<close>

record Database =
  prompts :: "PromptRecord list"
  seq :: nat

text \<open>
  What the code takes from its platform: \<^verbatim>\<open>path.basename\<close>, the locale-dependent
  \<^verbatim>\<open>formatRun\<close>, the resolved path of the helper script, the environment variable
  \<^verbatim>\<open>STT_DEVICE\<close>, the string conversion of a number, array or object inside a
  template literal (\<open>None\<close> when it throws), the clock read by
  \<^verbatim>\<open>new Date().toISOString()\<close>, and the file system as \<^verbatim>\<open>fs.existsSync\<close>
  sees it.
\<close>

record Platform =
  basename :: "jsstring \<Rightarrow> jsstring"
  formatRun :: "RunRecord \<Rightarrow> jsstring"
  helperPath :: jsstring
  env_STT_DEVICE :: "jsstring option"
  toStringOther :: "json \<Rightarrow> jsstring option"
  nowISO :: jsstring
  existsSync :: "jsstring \<Rightarrow> bool"

text \<open>
  Everything the handlers read or write: the application state, the spawned processes,
  the widgets they assign to (status text, prompt editor, prompt box title), the
  console log, the database and the platform. The history list and the tmux status
  line are not part of the model.
\<close>

record World =
  state :: AppState
  procs :: "RecorderProcess list"
  statusText :: jsstring
  editorText :: jsstring
  showCursor :: bool
  promptTitle :: jsstring
  console :: "jsstring list"
  db :: Database
  platform :: Platform

text \<open>
  A handler either returns or throws; in both cases it leaves a world behind, since
  assignments made before a throw persist.
\<close>

datatype outcome = Returned World | Thrown World

fun worldOf :: "outcome \<Rightarrow> World" where
  "worldOf (Returned w) = w"
| "worldOf (Thrown w) = w"

fun andThen :: "outcome \<Rightarrow> (World \<Rightarrow> outcome) \<Rightarrow> outcome" where
  "andThen (Returned w) f = f w"
| "andThen (Thrown w) f = Thrown w"

section \<open>Rendering\<close>

definition keysHelp :: jsstring where
  "keysHelp =
     js ''R record '' @ [0xB7] @ js '' Ctrl+E edit '' @ [0xB7] @ js '' Ctrl+S save '' @ [0xB7] @
     js '' Ctrl+Q exit edit '' @ [0xB7] @ js '' H history '' @ [0xB7] @ js '' C codex '' @ [0xB7] @
     js '' Y copy '' @ [0xB7] @ js '' Q quit''"

definition buildStatusLine :: "Platform \<Rightarrow> AppState \<Rightarrow> jsstring" where
  "buildStatusLine P s =
     (let mode = (if isRecording s then js ''Recording''
                  else if isEditing s then js ''Editing'' else js ''Idle'');
          partialLeaf = (if truthy (lastPartial s) then js '' '' @ [0x2026] @ js ''partial'' else []);
          idLabel = (case activePromptId s of
                       None \<Rightarrow> js ''unsaved''
                     | Some n \<Rightarrow> if n \<noteq> 0 then js ''#'' @ showNat n else js ''unsaved'');
          modelName = basename P (modelPath s);
          runInfo = (case lastRun s of
                       None \<Rightarrow> []
                     | Some r \<Rightarrow> js '' | Last run: '' @ formatRun P r)
      in js ''Mode: '' @ mode @ partialLeaf @ js '' | Prompt: '' @ idLabel @
         js '' | Model: '' @ modelName @ runInfo @ js '' | Keys: '' @ keysHelp)"

text \<open>
  \<^verbatim>\<open>renderPromptPreview\<close>. \<^verbatim>\<open>state.lastPartial?.trim()\<close> is \<^verbatim>\<open>undefined\<close> for
  \<^verbatim>\<open>undefined\<close> and \<^verbatim>\<open>null\<close>, the trimmed text for a string, and a TypeError
  (\<open>None\<close>) for any other value, which has no \<^verbatim>\<open>trim\<close> method.
\<close>

definition renderPromptPreview :: "AppState \<Rightarrow> jsstring option" where
  "renderPromptPreview s =
     (let base = trim (currentPrompt s) in
      case lastPartial s of
        None \<Rightarrow> Some base
      | Some JNull \<Rightarrow> Some base
      | Some (JStr t) \<Rightarrow>
          (let partial = trim t in
           if isRecording s \<and> partial \<noteq> []
           then Some (join (js '' '') (filter (\<lambda>x. x \<noteq> []) [base, partial]) @ js '' '' @ [0x2026])
           else Some base)
      | Some _ \<Rightarrow> None)"

definition updatePromptTitle :: "World \<Rightarrow> World" where
  "updatePromptTitle w =
     (let mode = (if isEditing (state w) then js ''EDIT''
                  else if isRecording (state w) then js ''RECORD'' else js ''VIEW'')
      in w\<lparr>promptTitle := js ''Current prompt ('' @ mode @ js '')''\<rparr>)"

definition refreshPromptView :: "World \<Rightarrow> outcome" where
  "refreshPromptView w =
     (case renderPromptPreview (state w) of
        None \<Rightarrow> Thrown w
      | Some preview \<Rightarrow>
          Returned (updatePromptTitle
            (w\<lparr>editorText := (if \<not> isEditing (state w) then preview else editorText w),
               showCursor := isEditing (state w),
               statusText := buildStatusLine (platform w) (state w)\<rparr>)))"

section \<open>Recorder subprocess\<close>

text \<open>\<^verbatim>\<open>proc.kill(sig)\<close> on the process with index \<open>p\<close>.\<close>

definition kill :: "nat \<Rightarrow> jsstring \<Rightarrow> RecorderProcess list \<Rightarrow> RecorderProcess list" where
  "kill p sig ps =
     (if p < length ps then ps[p := (ps ! p)\<lparr>signals := signals (ps ! p) @ [sig]\<rparr>] else ps)"

definition buildRecorderArgs :: "Platform \<Rightarrow> jsstring \<Rightarrow> jsstring list" where
  "buildRecorderArgs P mp =
     [helperPath P, js ''--model'', mp, js ''--sample-rate'', js ''16000''] @
     (case env_STT_DEVICE P of
        None \<Rightarrow> []
      | Some d \<Rightarrow> if d \<noteq> [] then [js ''--device'', d] else [])"

definition stopRecorder :: "World \<Rightarrow> World" where
  "stopRecorder w =
     (case recorder (state w) of
        None \<Rightarrow> w
      | Some p \<Rightarrow> w\<lparr>procs := kill p (js ''SIGTERM'') (procs w),
                    state := (state w)\<lparr>recorder := None\<rparr>\<rparr>)"

text \<open>
  \<^verbatim>\<open>startRecorder\<close>: stops the current recorder, spawns the helper and stores the new
  \<^verbatim>\<open>RecorderProcess\<close>. The handlers it registers on the new process are
  \<open>onLine\<close>, \<open>onStderrData\<close>, \<open>onError\<close> and \<open>onExit\<close> below.
\<close>

definition startRecorder :: "World \<Rightarrow> World" where
  "startRecorder w =
     (let w1 = stopRecorder w;
          args = buildRecorderArgs (platform w1) (modelPath (state w1));
          recorderState = \<lparr>spawnCommand = js ''node'', spawnArgs = args,
                           lastStderr = [], signals = []\<rparr>
      in w1\<lparr>procs := procs w1 @ [recorderState],
            state := (state w1)\<lparr>recorder := Some (length (procs w1))\<rparr>\<rparr>)"

section \<open>Transcript events\<close>

text \<open>
  \<^verbatim>\<open>appendFinalText(text)\<close>: \<^verbatim>\<open>text.trim()\<close> throws a TypeError unless \<open>text\<close> is a
  string.
\<close>

definition appendFinalText :: "jsval \<Rightarrow> World \<Rightarrow> outcome" where
  "appendFinalText text w =
     (case text of
        Some (JStr t) \<Rightarrow>
          if trim t = [] then Returned w
          else
            (let existing = trim (currentPrompt (state w)) in
             refreshPromptView
               (w\<lparr>state := (state w)
                    \<lparr>currentPrompt :=
                       (if existing \<noteq> [] then existing @ js '' '' @ trim t else trim t),
                     lastPartial := None\<rparr>\<rparr>))
      | _ \<Rightarrow> Thrown w)"

text \<open>The string a template literal interpolates for \<^verbatim>\<open>${v}\<close>; \<open>None\<close> when it throws.\<close>

definition templateString :: "Platform \<Rightarrow> jsval \<Rightarrow> jsstring option" where
  "templateString P v =
     (case v of
        None \<Rightarrow> Some (js ''undefined'')
      | Some JNull \<Rightarrow> Some (js ''null'')
      | Some (JBool b) \<Rightarrow> Some (if b then js ''true'' else js ''false'')
      | Some (JStr s) \<Rightarrow> Some s
      | Some x \<Rightarrow> toStringOther P x)"

text \<open>\<^verbatim>\<open>handleSttEvent(evt)\<close>: reading \<^verbatim>\<open>evt.type\<close> of \<^verbatim>\<open>null\<close> throws.\<close>

definition handleSttEvent :: "json \<Rightarrow> World \<Rightarrow> outcome" where
  "handleSttEvent evt w =
     (if evt = JNull then Thrown w
      else if getProp evt (js ''type'') = Some (JStr (js ''partial'')) then
        refreshPromptView (w\<lparr>state := (state w)\<lparr>lastPartial := getProp evt (js ''text'')\<rparr>\<rparr>)
      else if getProp evt (js ''type'') = Some (JStr (js ''final'')) then
        appendFinalText (getProp evt (js ''text'')) w
      else if getProp evt (js ''type'') = Some (JStr (js ''error'')) then
        (case templateString (platform w) (getProp evt (js ''error'')) of
           None \<Rightarrow> Thrown w
         | Some m \<Rightarrow> Returned (w\<lparr>statusText := js ''STT error: '' @ m\<rparr>))
      else Returned w)"

text \<open>
  The \<^verbatim>\<open>line\<close> handler of the readline interface. Its argument is the result of
  \<^verbatim>\<open>JSON.parse(line)\<close>, \<open>None\<close> when parsing throws; the \<^verbatim>\<open>catch\<close> swallows that
  and whatever \<^verbatim>\<open>handleSttEvent\<close> throws.
\<close>

definition onLine :: "json option \<Rightarrow> World \<Rightarrow> World" where
  "onLine parsed w =
     (case parsed of
        None \<Rightarrow> w
      | Some evt \<Rightarrow> worldOf (handleSttEvent evt w))"

text \<open>
  The \<^verbatim>\<open>data\<close> handler on the stderr of process \<open>p\<close>. The handlers of a process
  exist from its spawn on, so an index that names no spawned process has no effect.
\<close>

definition onStderrData :: "nat \<Rightarrow> jsstring \<Rightarrow> World \<Rightarrow> World" where
  "onStderrData p data w =
     (if p < length (procs w) then
        (let msg = trim data;
             old = lastStderr (procs w ! p);
             new = (if old \<noteq> [] then old @ [0x0A] @ msg else msg);
             status = js ''STT error: '' @ new
         in w\<lparr>procs := (procs w)[p := (procs w ! p)\<lparr>lastStderr := new\<rparr>],
              statusText := status,
              console := console w @ [status]\<rparr>)
      else w)"

text \<open>The \<^verbatim>\<open>error\<close> handler of a process, given \<^verbatim>\<open>err.message\<close>.\<close>

definition onError :: "jsstring \<Rightarrow> World \<Rightarrow> World" where
  "onError message w =
     (let msg = js ''Failed to start STT helper: '' @ message
      in w\<lparr>statusText := msg, console := console w @ [msg]\<rparr>)"

text \<open>
  The \<^verbatim>\<open>exit\<close> handler of process \<open>p\<close>, with the exit code and signal Node passes
  (each may be \<^verbatim>\<open>null\<close>).
\<close>

definition exitDetail :: "jsstring \<Rightarrow> nat option \<Rightarrow> jsstring option \<Rightarrow> jsstring" where
  "exitDetail stderrText code signal =
     (if stderrText \<noteq> [] then stderrText
      else case code of
             Some c \<Rightarrow> js ''code '' @ showNat c
           | None \<Rightarrow>
               (case signal of
                  None \<Rightarrow> js ''stt helper exited''
                | Some sg \<Rightarrow> if sg \<noteq> [] then js ''signal '' @ sg else js ''stt helper exited''))"

definition onExit :: "nat \<Rightarrow> nat option \<Rightarrow> jsstring option \<Rightarrow> World \<Rightarrow> World" where
  "onExit p code signal w =
     (if p < length (procs w) \<and> isRecording (state w) then
        (let detail = exitDetail (lastStderr (procs w ! p)) code signal;
             msg = js ''Recording stopped ('' @ detail @ js '').''
         in w\<lparr>state := (state w)\<lparr>isRecording := False\<rparr>,
              statusText := msg,
              console := console w @ [msg]\<rparr>)
      else w)"

section \<open>Recording state machine\<close>

definition startRecording :: "World \<Rightarrow> outcome" where
  "startRecording w =
     andThen
       (refreshPromptView
          (w\<lparr>state := (state w)\<lparr>isRecording := True, isEditing := False, currentPrompt := [],
                                 lastPartial := None, activePromptId := None, lastRun := None\<rparr>,
             showCursor := False\<rparr>))
       (\<lambda>w'. Returned (startRecorder w'))"

definition stopRecording :: "World \<Rightarrow> outcome" where
  "stopRecording w =
     (if \<not> isRecording (state w) then Returned w
      else refreshPromptView
             (stopRecorder (w\<lparr>state := (state w)\<lparr>isRecording := False, lastPartial := None\<rparr>\<rparr>)))"

definition toggleRecording :: "World \<Rightarrow> outcome" where
  "toggleRecording w = (if isRecording (state w) then stopRecording w else startRecording w)"

section \<open>Prompt store and saving\<close>

text \<open>
  \<^verbatim>\<open>savePrompt\<close>: INSERT with an AUTOINCREMENT key, one larger than every row id that
  has existed in the table.
\<close>

definition savePrompt :: "jsstring \<Rightarrow> jsstring \<Rightarrow> Database \<Rightarrow> PromptRecord \<times> Database" where
  "savePrompt now text d =
     (let newId = Suc (fold max (map rec_id (prompts d)) (seq d));
          r = \<lparr>rec_id = newId, rec_createdAt = now, rec_text = text\<rparr>
      in (r, d\<lparr>prompts := prompts d @ [r], seq := newId\<rparr>))"

text \<open>
  \<^verbatim>\<open>updatePrompt\<close>: throws (\<open>None\<close>) when no row has the id or its
  \<^verbatim>\<open>created_at\<close> is empty.
\<close>

definition updatePrompt :: "nat \<Rightarrow> jsstring \<Rightarrow> Database \<Rightarrow> (PromptRecord \<times> Database) option" where
  "updatePrompt i text d =
     (case find (\<lambda>r. rec_id r = i) (prompts d) of
        None \<Rightarrow> None
      | Some row \<Rightarrow>
          if rec_createdAt row = [] then None
          else Some (\<lparr>rec_id = i, rec_createdAt = rec_createdAt row, rec_text = text\<rparr>,
                     d\<lparr>prompts := map (\<lambda>r. if rec_id r = i then r\<lparr>rec_text := text\<rparr> else r)
                                      (prompts d)\<rparr>))"

definition nothingToSave :: jsstring where
  "nothingToSave = js ''Nothing to save '' @ [0x2013] @ js '' prompt is empty.''"

definition savedStatus :: "PromptRecord \<Rightarrow> jsstring" where
  "savedStatus r =
     js ''Saved prompt #'' @ showNat (rec_id r) @ js '' ('' @ rec_createdAt r @ js '').''"

definition handleSave :: "World \<Rightarrow> outcome" where
  "handleSave w =
     (let content = trim (currentPrompt (state w)) in
      if content = [] then Returned (w\<lparr>statusText := nothingToSave\<rparr>)
      else
        (case (case activePromptId (state w) of
                 None \<Rightarrow> Some (savePrompt (nowISO (platform w)) content (db w))
               | Some i \<Rightarrow>
                   if i \<noteq> 0 then updatePrompt i content (db w)
                   else Some (savePrompt (nowISO (platform w)) content (db w))) of
           None \<Rightarrow> Thrown w
         | Some (r, d) \<Rightarrow>
             Returned (updatePromptTitle
               (w\<lparr>db := d,
                  state := (state w)\<lparr>activePromptId := Some (rec_id r),
                                       createdAt := Some (rec_createdAt r)\<rparr>,
                  statusText := savedStatus r\<rparr>))))"

section \<open>The helper script's start-up\<close>

record HelperArgs =
  arg_model :: "jsstring option"
  arg_sampleRate :: "jsstring option"
  arg_device :: "jsstring option"

text \<open>
  \<^verbatim>\<open>parseArgs\<close>: a flag consumes the next element of \<open>argv\<close> as its value
  (\<^verbatim>\<open>undefined\<close> when there is none).
\<close>

fun parseArgs :: "jsstring list \<Rightarrow> HelperArgs \<Rightarrow> HelperArgs" where
  "parseArgs [] out = out"
| "parseArgs (arg # rest) out =
     (if arg = js ''--model'' then
        (case rest of
           [] \<Rightarrow> out\<lparr>arg_model := None\<rparr>
         | v # rest' \<Rightarrow> parseArgs rest' (out\<lparr>arg_model := Some v\<rparr>))
      else if arg = js ''--sample-rate'' then
        (case rest of
           [] \<Rightarrow> out\<lparr>arg_sampleRate := None\<rparr>
         | v # rest' \<Rightarrow> parseArgs rest' (out\<lparr>arg_sampleRate := Some v\<rparr>))
      else if arg = js ''--device'' then
        (case rest of
           [] \<Rightarrow> out\<lparr>arg_device := None\<rparr>
         | v # rest' \<Rightarrow> parseArgs rest' (out\<lparr>arg_device := Some v\<rparr>))
      else parseArgs rest out)"

text \<open>
  The helper's model path: \<^verbatim>\<open>args.model || process.env.VOSK_MODEL_PATH || default\<close>,
  where an empty string counts as absent.
\<close>

definition helperModelPath :: "HelperArgs \<Rightarrow> jsstring option \<Rightarrow> jsstring \<Rightarrow> jsstring" where
  "helperModelPath args envModel defaultPath =
     (case arg_model args of
        Some m \<Rightarrow> if m \<noteq> [] then m
                  else (case envModel of
                          Some e \<Rightarrow> if e \<noteq> [] then e else defaultPath
                        | None \<Rightarrow> defaultPath)
      | None \<Rightarrow> (case envModel of
                   Some e \<Rightarrow> if e \<noteq> [] then e else defaultPath
                 | None \<Rightarrow> defaultPath))"

text \<open>
  The script up to its model check, run on \<^verbatim>\<open>process.argv.slice(2)\<close>: when
  \<^verbatim>\<open>fs.existsSync(modelPath)\<close> is false it prints the serialised error object on
  stderr and exits with status 1; otherwise it goes on to load the recogniser.
\<close>

datatype helperStart = HelperExit nat json | HelperContinues jsstring

definition helperStartup ::
  "(jsstring \<Rightarrow> bool) \<Rightarrow> jsstring option \<Rightarrow> jsstring \<Rightarrow> jsstring list \<Rightarrow> helperStart" where
  "helperStartup pathExists envModel defaultPath argv =
     (let args = parseArgs argv \<lparr>arg_model = None, arg_sampleRate = None, arg_device = None\<rparr>;
          mp = helperModelPath args envModel defaultPath
      in if \<not> pathExists mp then
           HelperExit 1 (JObj [(js ''type'', JStr (js ''error'')),
                               (js ''error'', JStr (js ''Model path not found: '' @ mp))])
         else HelperContinues mp)"

section \<open>Well-formed events and sample worlds\<close>

text \<open>The three event shapes of the helper's protocol, as parsed values.\<close>

definition partialEvt :: "jsstring \<Rightarrow> json" where
  "partialEvt t = JObj [(js ''type'', JStr (js ''partial'')), (js ''text'', JStr t)]"

definition finalEvt :: "jsstring \<Rightarrow> json" where
  "finalEvt t = JObj [(js ''type'', JStr (js ''final'')), (js ''text'', JStr t)]"

definition errorEvt :: "jsstring \<Rightarrow> json" where
  "errorEvt m = JObj [(js ''type'', JStr (js ''error'')), (js ''error'', JStr m)]"

text \<open>Feeding the lines of a list of Final, respectively Partial, events in order.\<close>

definition feedFinals :: "jsstring list \<Rightarrow> World \<Rightarrow> World" where
  "feedFinals ts w = foldl (\<lambda>v t. onLine (Some (finalEvt t)) v) w ts"

definition feedPartials :: "jsstring list \<Rightarrow> World \<Rightarrow> World" where
  "feedPartials ts w = foldl (\<lambda>v t. onLine (Some (partialEvt t)) v) w ts"

text \<open>
  What the specification asks of the draft after Final events: the trimmed non-empty
  texts joined by single spaces.
\<close>

definition joinedFinals :: "jsstring list \<Rightarrow> jsstring" where
  "joinedFinals ts = join (js '' '') (filter (\<lambda>t. t \<noteq> []) (map trim ts))"

text \<open>
  The model path \<^verbatim>\<open>startTui\<close> resolves:
  \<^verbatim>\<open>modelPath ?? process.env.VOSK_MODEL_PATH ?? defaultModelLocation()\<close>. Unlike the
  helper's \<^verbatim>\<open>||\<close>, the operator \<^verbatim>\<open>??\<close> keeps an empty string.
\<close>

definition resolvedModelPath :: "jsstring option \<Rightarrow> jsstring option \<Rightarrow> jsstring \<Rightarrow> jsstring" where
  "resolvedModelPath argPath envModel defaultPath =
     (case argPath of
        Some p \<Rightarrow> p
      | None \<Rightarrow> (case envModel of Some e \<Rightarrow> e | None \<Rightarrow> defaultPath))"

text \<open>
  String conversion as JavaScript performs it on parsed JSON, for integers that print
  in plain decimal: an array prints its elements separated by commas, with
  \<^verbatim>\<open>null\<close> as the empty string; an object prints as \<open>[object Object]\<close>, unless it
  has an own \<^verbatim>\<open>toString\<close> property, which JSON cannot make callable, so that the
  conversion throws.
\<close>

definition showInt :: "int \<Rightarrow> jsstring" where
  "showInt n = (if n < 0 then js ''-'' @ showNat (nat (- n)) else showNat (nat n))"

fun sampleToString :: "json \<Rightarrow> jsstring option" where
  "sampleToString JNull = Some (js ''null'')"
| "sampleToString (JBool b) = Some (if b then js ''true'' else js ''false'')"
| "sampleToString (JNum n) = Some (showInt n)"
| "sampleToString (JStr t) = Some t"
| "sampleToString (JArr xs) =
     (let parts = map (\<lambda>x. if x = JNull then Some [] else sampleToString x) xs
      in if None \<in> set parts then None else Some (join (js '','') (map the parts)))"
| "sampleToString (JObj kvs) =
     (if js ''toString'' \<in> set (map fst kvs) then None else Some (js ''[object Object]''))"

text \<open>
  A platform, on whose file system no path exists, and the world \<^verbatim>\<open>startTui\<close> has
  set up when it returns, for concrete runs.
\<close>

definition samplePlatform :: Platform where
  "samplePlatform =
     \<lparr>basename = (\<lambda>p. rev (takeWhile (\<lambda>c. c \<noteq> 0x2F) (rev p))),
      formatRun = run_createdAt,
      helperPath = js ''/app/scripts/stt-helper.cjs'',
      env_STT_DEVICE = None,
      toStringOther = sampleToString,
      nowISO = js ''2024-01-01T00:00:00.000Z'',
      existsSync = (\<lambda>p. False)\<rparr>"

definition initialWorld :: World where
  "initialWorld =
     \<lparr>state = \<lparr>currentPrompt = [], activePromptId = None, createdAt = None, lastPartial = None,
               isRecording = False, isEditing = False, historyOpen = True,
               modelPath = js ''/models/vosk'', lastRun = None, recorder = None\<rparr>,
      procs = [],
      statusText =
        buildStatusLine samplePlatform
          \<lparr>currentPrompt = [], activePromptId = None, createdAt = None, lastPartial = None,
           isRecording = False, isEditing = False, historyOpen = True,
           modelPath = js ''/models/vosk'', lastRun = None, recorder = None\<rparr>,
      editorText = [], showCursor = False, promptTitle = js ''Current prompt (VIEW)'',
      console = [], db = \<lparr>prompts = [], seq = 0\<rparr>, platform = samplePlatform\<rparr>"

text \<open>The sample world after the user pressed R once: recording, one helper running.\<close>

definition recordingWorld :: World where
  "recordingWorld = worldOf (startRecording initialWorld)"

text \<open>
  Recording, a Final event \<open>hello\<close> arrives, the user presses R again: the draft is
  \<open>hello\<close>, the machine is idle and the helper has been sent SIGTERM.
\<close>

definition stoppedWorld :: World where
  "stoppedWorld =
     worldOf (stopRecording (onLine (Some (finalEvt (js ''hello''))) recordingWorld))"

text \<open>Recording, with the Partial event \<open>hello\<close> as the live preview.\<close>

definition previewWorld :: World where
  "previewWorld = onLine (Some (partialEvt (js ''hello''))) recordingWorld"

text \<open>
  Recording with draft \<open>draft one\<close>, after the helper wrote \<open>boom\<close> to its stderr.
\<close>

definition faultWorld :: World where
  "faultWorld =
     onStderrData 0 (js ''boom'') (onLine (Some (finalEvt (js ''draft one''))) recordingWorld)"

text \<open>
  The user presses R three times in a row: start, stop, start. The first helper has
  been sent SIGTERM but has not exited yet; the second helper is running.
\<close>

definition restartedWorld :: World where
  "restartedWorld =
     worldOf (andThen (andThen (toggleRecording initialWorld) toggleRecording) toggleRecording)"

text \<open>An idle world holding the draft \<open>draft one\<close>.\<close>

definition draftWorld :: World where
  "draftWorld = initialWorld\<lparr>state := (state initialWorld)\<lparr>currentPrompt := js ''draft one''\<rparr>\<rparr>"

text \<open>
  An idle world whose draft is blank while a prompt saved earlier is still active.
\<close>

definition savedWorld :: World where
  "savedWorld =
     initialWorld\<lparr>state := (state initialWorld)\<lparr>currentPrompt := js ''  '', activePromptId := Some 1,
                                                 createdAt := Some (js ''2023-12-31T00:00:00.000Z'')\<rparr>,
                  db := \<lparr>prompts = [\<lparr>rec_id = 1, rec_createdAt = js ''2023-12-31T00:00:00.000Z'',
                                      rec_text = js ''old text''\<rparr>], seq = 1\<rparr>\<rparr>"

text \<open>
  A world started with \<^verbatim>\<open>VOSK_MODEL_PATH\<close> set to the empty string and no path
  argument, on a file system where only the default model location exists.
\<close>

definition emptyPathWorld :: World where
  "emptyPathWorld =
     initialWorld
       \<lparr>state := (state initialWorld)
          \<lparr>modelPath := resolvedModelPath None (Some []) (js ''/home/u/.local/share/vosk/model'')\<rparr>,
        platform := samplePlatform
          \<lparr>existsSync := (\<lambda>p. p = js ''/home/u/.local/share/vosk/model'')\<rparr>\<rparr>"

section \<open>Facts about trimming and joining\<close>

lemma trim_Nil: "trim [] = []" by (simp add: trim_def)

lemma all_dropWhile: "(\<forall>x\<in>set (dropWhile P s). P x) \<longleftrightarrow> (\<forall>x\<in>set s. P x)"
  by (induction s) auto

lemma trim_eq_Nil_iff: "trim s = [] \<longleftrightarrow> (\<forall>c\<in>set s. isWhiteSpace c)"
  by (simp add: trim_def dropWhile_eq_Nil_conv all_dropWhile)

lemma trim_fixed:
  assumes "s \<noteq> []" "\<not> isWhiteSpace (hd s)" "\<not> isWhiteSpace (last s)"
  shows "trim s = s"
proof -
  from assms have 1: "dropWhile isWhiteSpace s = s" by (cases s) auto
  from assms have "rev s \<noteq> []" "\<not> isWhiteSpace (hd (rev s))" by (auto simp: hd_rev)
  then have "dropWhile isWhiteSpace (rev s) = rev s" by (cases "rev s") auto
  with 1 show ?thesis by (simp add: trim_def)
qed

lemma trim_ends:
  assumes "trim s \<noteq> []"
  shows "\<not> isWhiteSpace (hd (trim s))" and "\<not> isWhiteSpace (last (trim s))"
proof -
  let ?d = "dropWhile isWhiteSpace s"
  let ?e = "dropWhile isWhiteSpace (rev ?d)"
  from assms have e: "?e \<noteq> []" by (simp add: trim_def)
  then have he: "\<not> isWhiteSpace (hd ?e)" by (rule hd_dropWhile)
  then show "\<not> isWhiteSpace (last (trim s))" using e by (simp add: trim_def last_rev)
  have d: "?d \<noteq> []"
  proof
    assume "?d = []"
    then have "?e = []" by (simp del: dropWhile_eq_Nil_conv)
    with e show False by contradiction
  qed
  then have hd: "\<not> isWhiteSpace (hd ?d)" by (rule hd_dropWhile)
  from d have "rev ?d \<noteq> []" by simp
  have "last (rev ?d) = hd ?d" using d by (simp add: last_rev)
  have "takeWhile isWhiteSpace (rev ?d) @ ?e = rev ?d" by simp
  then have "last ?e = last (rev ?d)" using e by (metis last_appendR)
  then have "hd (rev ?e) = hd ?d" using e d by (simp add: hd_rev last_rev)
  then show "\<not> isWhiteSpace (hd (trim s))" using hd by (simp add: trim_def)
qed

lemma trim_idem: "trim (trim s) = trim s"
proof (cases "trim s = []")
  case True then show ?thesis by (simp add: trim_Nil)
next
  case False then show ?thesis by (intro trim_fixed trim_ends)
qed

lemma space_ws: "isWhiteSpace 0x20" by (simp add: isWhiteSpace_def)

lemma js_space: "js '' '' = [0x20]" by (simp add: js_def)

lemma trim_glue:
  assumes "a \<noteq> []" "b \<noteq> []" "trim a = a" "trim b = b"
  shows "trim (a @ js '' '' @ b) = a @ js '' '' @ b"
proof -
  from assms(1,3) have "\<not> isWhiteSpace (hd a)" using trim_ends(1)[of a] by simp
  moreover from assms(2,4) have "\<not> isWhiteSpace (last b)" using trim_ends(2)[of b] by simp
  ultimately show ?thesis using assms(1,2) by (intro trim_fixed) auto
qed

section \<open>Facts about the event handlers\<close>

lemma evt_props:
  "getProp (finalEvt t) (js ''type'') = Some (JStr (js ''final''))"
  "getProp (finalEvt t) (js ''text'') = Some (JStr t)"
  "getProp (partialEvt t) (js ''type'') = Some (JStr (js ''partial''))"
  "getProp (partialEvt t) (js ''text'') = Some (JStr t)"
  "getProp (errorEvt t) (js ''type'') = Some (JStr (js ''error''))"
  "getProp (errorEvt t) (js ''error'') = Some (JStr t)"
  "finalEvt t \<noteq> JNull" "partialEvt t \<noteq> JNull" "errorEvt t \<noteq> JNull"
  by (simp_all add: finalEvt_def partialEvt_def errorEvt_def js_def)

lemma type_names_distinct:
  "js ''final'' \<noteq> js ''partial''" "js ''error'' \<noteq> js ''partial''" "js ''error'' \<noteq> js ''final''"
  by (simp_all add: js_def)

lemma handleSttEvent_final: "handleSttEvent (finalEvt t) w = appendFinalText (Some (JStr t)) w"
  by (simp add: handleSttEvent_def evt_props type_names_distinct)

lemma handleSttEvent_partial:
  "handleSttEvent (partialEvt t) w =
     refreshPromptView (w\<lparr>state := (state w)\<lparr>lastPartial := Some (JStr t)\<rparr>\<rparr>)"
  by (simp add: handleSttEvent_def evt_props)

lemma refresh_no_partial:
  "lastPartial (state w) = None \<Longrightarrow>
   refreshPromptView w =
     Returned (updatePromptTitle
       (w\<lparr>editorText := (if \<not> isEditing (state w) then trim (currentPrompt (state w)) else editorText w),
          showCursor := isEditing (state w),
          statusText := buildStatusLine (platform w) (state w)\<rparr>))"
  by (simp add: refreshPromptView_def renderPromptPreview_def)

lemma state_updatePromptTitle: "state (updatePromptTitle w) = state w"
  by (simp add: updatePromptTitle_def Let_def)

lemma onLine_final_state:
  "state (onLine (Some (finalEvt t)) w) =
     (if trim t = [] then state w
      else (state w)\<lparr>currentPrompt :=
              (if trim (currentPrompt (state w)) \<noteq> []
               then trim (currentPrompt (state w)) @ js '' '' @ trim t else trim t),
            lastPartial := None\<rparr>)"
  by (simp add: onLine_def handleSttEvent_final appendFinalText_def Let_def refresh_no_partial
      state_updatePromptTitle)

lemma feedFinals_snoc: "feedFinals (ts @ [t]) w = onLine (Some (finalEvt t)) (feedFinals ts w)"
  by (simp add: feedFinals_def)

lemma join_snoc: "join sep (xs @ [x]) = (if xs = [] then x else join sep xs @ sep @ x)"
  by (induction sep xs rule: join.induct) auto

lemma join_eq_Nil: "\<forall>x\<in>set xs. x \<noteq> [] \<Longrightarrow> join sep xs = [] \<longleftrightarrow> xs = []"
  by (induction sep xs rule: join.induct) auto

lemma joinedFinals_eq_Nil: "joinedFinals ts = [] \<longleftrightarrow> filter (\<lambda>t. t \<noteq> []) (map trim ts) = []"
  unfolding joinedFinals_def by (rule join_eq_Nil) simp

lemma joinedFinals_snoc:
  "joinedFinals (ts @ [t]) =
     (if trim t = [] then joinedFinals ts
      else if joinedFinals ts \<noteq> [] then joinedFinals ts @ js '' '' @ trim t else trim t)"
proof (cases "trim t = []")
  case True then show ?thesis by (simp add: joinedFinals_def)
next
  case False
  then show ?thesis
    using joinedFinals_eq_Nil[of ts] by (simp add: joinedFinals_def join_snoc)
qed

lemma joinedFinals_trimmed: "trim (joinedFinals ts) = joinedFinals ts"
proof (induction ts rule: rev_induct)
  case Nil show ?case by (simp add: joinedFinals_def trim_Nil)
next
  case (snoc t ts)
  show ?case
  proof (cases "trim t = []")
    case True with snoc show ?thesis by (simp add: joinedFinals_snoc)
  next
    case False
    show ?thesis
    proof (cases "joinedFinals ts = []")
      case True with False show ?thesis by (simp add: joinedFinals_snoc trim_idem)
    next
      case nonempty: False
      have "trim (joinedFinals ts @ js '' '' @ trim t) = joinedFinals ts @ js '' '' @ trim t"
        using nonempty False snoc by (intro trim_glue) (simp_all add: trim_idem)
      with False nonempty show ?thesis by (simp add: joinedFinals_snoc)
    qed
  qed
qed

lemma feedFinals_draft:
  "currentPrompt (state w) = [] \<Longrightarrow> currentPrompt (state (feedFinals ts w)) = joinedFinals ts"
proof (induction ts rule: rev_induct)
  case Nil then show ?case by (simp add: feedFinals_def joinedFinals_def)
next
  case (snoc t ts)
  then have IH: "currentPrompt (state (feedFinals ts w)) = joinedFinals ts" by simp
  show ?case
    by (simp add: feedFinals_snoc onLine_final_state IH joinedFinals_snoc joinedFinals_trimmed)
qed

lemma feedFinals_recording: "isRecording (state (feedFinals ts w)) = isRecording (state w)"
  by (induction ts rule: rev_induct) (simp_all add: feedFinals_def onLine_final_state)

lemma onLine_partial:
  "onLine (Some (partialEvt t)) w =
     updatePromptTitle
       (w\<lparr>state := (state w)\<lparr>lastPartial := Some (JStr t)\<rparr>,
          editorText :=
            (if isEditing (state w) then editorText w
             else if isRecording (state w) \<and> trim t \<noteq> []
             then join (js '' '') (filter (\<lambda>x. x \<noteq> []) [trim (currentPrompt (state w)), trim t])
                  @ js '' '' @ [0x2026]
             else trim (currentPrompt (state w))),
          showCursor := isEditing (state w),
          statusText := buildStatusLine (platform w) ((state w)\<lparr>lastPartial := Some (JStr t)\<rparr>)\<rparr>)"
  by (simp add: onLine_def handleSttEvent_partial refreshPromptView_def renderPromptPreview_def Let_def)

lemma onLine_partial_absorbs:
  "onLine (Some (partialEvt q)) (onLine (Some (partialEvt p)) w) = onLine (Some (partialEvt q)) w"
  by (simp add: onLine_partial updatePromptTitle_def Let_def)

lemma feedPartials_last:
  "ps \<noteq> [] \<Longrightarrow> feedPartials ps w = onLine (Some (partialEvt (last ps))) w"
proof (induction ps rule: rev_induct)
  case Nil then show ?case by simp
next
  case (snoc p ps)
  show ?case
  proof (cases "ps = []")
    case True then show ?thesis by (simp add: feedPartials_def)
  next
    case False
    with snoc have "feedPartials ps w = onLine (Some (partialEvt (last ps))) w" by simp
    then show ?thesis by (simp add: feedPartials_def onLine_partial_absorbs)
  qed
qed

lemma onLine_final:
  "trim t \<noteq> [] \<Longrightarrow>
   onLine (Some (finalEvt t)) w =
     (let s' = (state w)\<lparr>currentPrompt :=
                  (if trim (currentPrompt (state w)) \<noteq> []
                   then trim (currentPrompt (state w)) @ js '' '' @ trim t else trim t),
                lastPartial := None\<rparr>
      in updatePromptTitle
           (w\<lparr>state := s',
              editorText := (if isEditing (state w) then editorText w else trim (currentPrompt s')),
              showCursor := isEditing (state w),
              statusText := buildStatusLine (platform w) s'\<rparr>))"
  by (simp add: onLine_def handleSttEvent_final appendFinalText_def Let_def refresh_no_partial)



lemma procs_onLine: "procs (onLine parsed w) = procs w"
  by (auto simp: onLine_def handleSttEvent_def appendFinalText_def refreshPromptView_def
      updatePromptTitle_def Let_def split: option.splits json.splits)

lemma length_kill: "length (kill p sg ps) = length ps"
  by (simp add: kill_def)

lemma stopRecorder_idem: "stopRecorder (stopRecorder w) = stopRecorder w"
  by (simp add: stopRecorder_def split: option.splits)

lemma stopRecording_returns:
  "stopRecording w = Returned (worldOf (stopRecording w))"
  by (simp add: stopRecording_def refresh_no_partial stopRecorder_def split: option.splits)

lemma stopRecording_state:
  "state (worldOf (stopRecording w)) =
     (if isRecording (state w)
      then (state w)\<lparr>isRecording := False, lastPartial := None, recorder := None\<rparr>
      else state w)"
  by (simp add: stopRecording_def stopRecorder_def refresh_no_partial state_updatePromptTitle
      split: option.splits)

lemma stopRecording_procs:
  "procs (worldOf (stopRecording w)) = (if isRecording (state w) then procs (stopRecorder w) else procs w)"
  by (simp add: stopRecording_def stopRecorder_def refresh_no_partial updatePromptTitle_def Let_def
      split: option.splits)

lemma platform_stopRecording: "platform (worldOf (stopRecording w)) = platform w"
  by (simp add: stopRecording_def stopRecorder_def refresh_no_partial updatePromptTitle_def Let_def
      split: option.splits)

lemma startRecording_returns: "startRecording w = Returned (worldOf (startRecording w))"
  by (simp add: startRecording_def refresh_no_partial)

lemma startRecording_world:
  "worldOf (startRecording w) =
     startRecorder (updatePromptTitle
       (w\<lparr>state := (state w)\<lparr>isRecording := True, isEditing := False, currentPrompt := [],
                               lastPartial := None, activePromptId := None, lastRun := None\<rparr>,
          editorText := [], showCursor := False,
          statusText := buildStatusLine (platform w)
            ((state w)\<lparr>isRecording := True, isEditing := False, currentPrompt := [],
                       lastPartial := None, activePromptId := None, lastRun := None\<rparr>)\<rparr>))"
  by (simp add: startRecording_def refresh_no_partial trim_Nil)

lemma startRecording_state:
  "state (worldOf (startRecording w)) =
     (state w)\<lparr>isRecording := True, isEditing := False, currentPrompt := [], lastPartial := None,
               activePromptId := None, lastRun := None, recorder := Some (length (procs w))\<rparr>"
  by (simp add: startRecording_world startRecorder_def stopRecorder_def updatePromptTitle_def Let_def
      length_kill split: option.splits)

lemma startRecording_procs:
  "procs (worldOf (startRecording w)) =
     procs (stopRecorder w) @
       [\<lparr>spawnCommand = js ''node'',
         spawnArgs = buildRecorderArgs (platform w) (modelPath (state w)),
         lastStderr = [], signals = []\<rparr>]"
  by (simp add: startRecording_world startRecorder_def stopRecorder_def updatePromptTitle_def Let_def
      split: option.splits)

lemma showNat_digits: "showNat 0 = [0x30]" "showNat (Suc 0) = [0x31]"
  by (simp_all add: showNat.simps)

lemma parse_recorder_args:
  "arg_model (parseArgs (tl (buildRecorderArgs P mp))
                \<lparr>arg_model = None, arg_sampleRate = None, arg_device = None\<rparr>) = Some mp"
  by (simp add: buildRecorderArgs_def js_def split: option.splits)

lemma helper_rejects_missing_model:
  "mp \<noteq> [] \<Longrightarrow> \<not> ex mp \<Longrightarrow>
   helperStartup ex envModel dflt (tl (buildRecorderArgs P mp)) =
     HelperExit 1 (errorEvt (js ''Model path not found: '' @ mp))"
  by (simp add: helperStartup_def Let_def helperModelPath_def parse_recorder_args errorEvt_def)


lemma helper_on_recorder_args:
  "helperStartup ex envModel dflt (tl (buildRecorderArgs P mp)) =
     (let hp = (if mp \<noteq> [] then mp
                else case envModel of
                       Some e \<Rightarrow> if e \<noteq> [] then e else dflt
                     | None \<Rightarrow> dflt)
      in if \<not> ex hp then HelperExit 1 (errorEvt (js ''Model path not found: '' @ hp))
         else HelperContinues hp)"
  by (simp add: helperStartup_def Let_def helperModelPath_def parse_recorder_args errorEvt_def
      split: option.splits)

section \<open>The sample worlds, evaluated\<close>

text \<open>
  The initial world is what the last two calls of \<^verbatim>\<open>startTui\<close>,
  \<^verbatim>\<open>updatePromptTitle()\<close> and \<^verbatim>\<open>refreshPromptView()\<close>, leave behind.
\<close>

lemma initialWorld_startup:
  "refreshPromptView (updatePromptTitle initialWorld) = Returned initialWorld"
  by (simp add: refreshPromptView_def renderPromptPreview_def updatePromptTitle_def Let_def
      initialWorld_def trim_Nil js_def)

lemma recordingWorld_state:
  "state recordingWorld =
     \<lparr>currentPrompt = [], activePromptId = None, createdAt = None, lastPartial = None,
      isRecording = True, isEditing = False, historyOpen = True,
      modelPath = js ''/models/vosk'', lastRun = None, recorder = Some 0\<rparr>"
  by (simp add: recordingWorld_def startRecording_def refresh_no_partial startRecorder_def
      stopRecorder_def updatePromptTitle_def Let_def initialWorld_def)

lemma recordingWorld_procs:
  "procs recordingWorld =
     [\<lparr>spawnCommand = js ''node'',
       spawnArgs = [js ''/app/scripts/stt-helper.cjs'', js ''--model'', js ''/models/vosk'',
                    js ''--sample-rate'', js ''16000''],
       lastStderr = [], signals = []\<rparr>]"
  by (simp add: recordingWorld_def startRecording_def refresh_no_partial startRecorder_def
      stopRecorder_def updatePromptTitle_def Let_def initialWorld_def buildRecorderArgs_def
      samplePlatform_def)

lemma previewWorld_state:
  "state previewWorld = (state recordingWorld)\<lparr>lastPartial := Some (JStr (js ''hello''))\<rparr>"
  by (simp add: previewWorld_def onLine_partial state_updatePromptTitle)

lemma stoppedWorld_state:
  "state stoppedWorld =
     \<lparr>currentPrompt = js ''hello'', activePromptId = None, createdAt = None, lastPartial = None,
      isRecording = False, isEditing = False, historyOpen = True,
      modelPath = js ''/models/vosk'', lastRun = None, recorder = None\<rparr>"
  by (simp add: stoppedWorld_def stopRecording_state onLine_final_state recordingWorld_state
      trim_def isWhiteSpace_def js_def)

lemma faultWorld_state:
  "state faultWorld = (state recordingWorld)\<lparr>currentPrompt := js ''draft one''\<rparr>"
  by (simp add: faultWorld_def onStderrData_def Let_def onLine_final_state recordingWorld_state
      trim_def isWhiteSpace_def js_def)

lemma faultWorld_procs:
  "procs faultWorld =
     [\<lparr>spawnCommand = js ''node'',
       spawnArgs = [js ''/app/scripts/stt-helper.cjs'', js ''--model'', js ''/models/vosk'',
                    js ''--sample-rate'', js ''16000''],
       lastStderr = js ''boom'', signals = []\<rparr>]"
  by (simp add: faultWorld_def onStderrData_def Let_def procs_onLine recordingWorld_procs
      trim_def isWhiteSpace_def js_def)

lemma restartedWorld_unfold:
  "restartedWorld = worldOf (startRecording (worldOf (stopRecording recordingWorld)))"
proof -
  have 1: "toggleRecording initialWorld = Returned recordingWorld"
    using startRecording_returns[of initialWorld]
    by (simp add: toggleRecording_def initialWorld_def recordingWorld_def)
  have 2: "toggleRecording recordingWorld = Returned (worldOf (stopRecording recordingWorld))"
    using stopRecording_returns[of recordingWorld]
    by (simp add: toggleRecording_def recordingWorld_state)
  have 3: "toggleRecording (worldOf (stopRecording recordingWorld))
      = startRecording (worldOf (stopRecording recordingWorld))"
    by (simp add: toggleRecording_def stopRecording_state)
  show ?thesis by (simp add: restartedWorld_def 1 2 3)
qed

lemma restartedWorld_state:
  "state restartedWorld =
     \<lparr>currentPrompt = [], activePromptId = None, createdAt = None, lastPartial = None,
      isRecording = True, isEditing = False, historyOpen = True,
      modelPath = js ''/models/vosk'', lastRun = None, recorder = Some 1\<rparr>"
  by (simp add: restartedWorld_unfold startRecording_state stopRecording_state stopRecording_procs
      recordingWorld_state recordingWorld_procs stopRecorder_def length_kill)

lemma restartedWorld_procs:
  "procs restartedWorld =
     [\<lparr>spawnCommand = js ''node'',
       spawnArgs = [js ''/app/scripts/stt-helper.cjs'', js ''--model'', js ''/models/vosk'',
                    js ''--sample-rate'', js ''16000''],
       lastStderr = [], signals = [js ''SIGTERM'']\<rparr>,
      \<lparr>spawnCommand = js ''node'',
       spawnArgs = [js ''/app/scripts/stt-helper.cjs'', js ''--model'', js ''/models/vosk'',
                    js ''--sample-rate'', js ''16000''],
       lastStderr = [], signals = []\<rparr>]"
proof -
  have p: "platform recordingWorld = samplePlatform"
    by (simp add: recordingWorld_def startRecording_world startRecorder_def stopRecorder_def
        updatePromptTitle_def Let_def initialWorld_def)
  show ?thesis
    by (simp add: restartedWorld_unfold startRecording_procs stopRecording_state stopRecording_procs
        platform_stopRecording p recordingWorld_state recordingWorld_procs stopRecorder_def kill_def
        buildRecorderArgs_def samplePlatform_def)
qed

section \<open>Claims\<close>

text \<open>
  C1, as stated, fails. In the sample run the machine has left Recording (the user
  stopped) with draft \<open>hello\<close>; the Final event \<open>world\<close> that the helper flushes on
  SIGTERM is then appended, so the draft changes while \<open>isRecording\<close> is false.
\<close>

theorem C1_counterexample:
  "\<not> isRecording (state stoppedWorld)
   \<and> currentPrompt (state stoppedWorld) = js ''hello''
   \<and> currentPrompt (state (onLine (Some (finalEvt (js ''world''))) stoppedWorld)) = js ''hello world''"
  by (simp add: stoppedWorld_state onLine_final_state trim_def isWhiteSpace_def js_def)

text \<open>
  C1, amended. \<^verbatim>\<open>handleSttEvent\<close> never looks at \<open>isRecording\<close>. A Partial event
  never changes the draft, in any state, and while the machine is neither recording nor
  editing the editor keeps showing the trimmed draft alone. A Final event with blank
  text changes nothing. A Final event with non-blank text is appended to the draft in
  every state, recording or not.
\<close>

theorem C1_late_events:
  "currentPrompt (state (onLine (Some (partialEvt p)) w)) = currentPrompt (state w)
   \<and> (\<not> isRecording (state w) \<and> \<not> isEditing (state w) \<longrightarrow>
        editorText (onLine (Some (partialEvt p)) w) = trim (currentPrompt (state w)))
   \<and> (trim f = [] \<longrightarrow> onLine (Some (finalEvt f)) w = w)
   \<and> (trim f \<noteq> [] \<longrightarrow>
        currentPrompt (state (onLine (Some (finalEvt f)) w)) =
          (if trim (currentPrompt (state w)) \<noteq> []
           then trim (currentPrompt (state w)) @ js '' '' @ trim f else trim f))"
proof -
  have a: "currentPrompt (state (onLine (Some (partialEvt p)) w)) = currentPrompt (state w)"
    by (simp add: onLine_partial state_updatePromptTitle)
  have b: "\<not> isRecording (state w) \<and> \<not> isEditing (state w) \<longrightarrow>
        editorText (onLine (Some (partialEvt p)) w) = trim (currentPrompt (state w))"
    by (simp add: onLine_partial updatePromptTitle_def Let_def)
  have c: "trim f = [] \<longrightarrow> onLine (Some (finalEvt f)) w = w"
    by (simp add: onLine_def handleSttEvent_final appendFinalText_def)
  have d: "trim f \<noteq> [] \<longrightarrow>
        currentPrompt (state (onLine (Some (finalEvt f)) w)) =
          (if trim (currentPrompt (state w)) \<noteq> []
           then trim (currentPrompt (state w)) @ js '' '' @ trim f else trim f)"
    by (simp add: onLine_final_state)
  from a b c d show ?thesis by blast
qed

text \<open>
  The amended C1 on the stopped sample world.
\<close>

theorem C1_late_events_witness:
  "\<not> isRecording (state stoppedWorld) \<and> \<not> isEditing (state stoppedWorld)
   \<and> currentPrompt (state (onLine (Some (partialEvt (js ''late''))) stoppedWorld)) = js ''hello''
   \<and> editorText (onLine (Some (partialEvt (js ''late''))) stoppedWorld) = js ''hello''
   \<and> onLine (Some (finalEvt (js ''   ''))) stoppedWorld = stoppedWorld
   \<and> currentPrompt (state (onLine (Some (finalEvt (js ''world''))) stoppedWorld)) = js ''hello world''"
  using C1_late_events[of "js ''late''" stoppedWorld "js ''   ''"]
        C1_late_events[of "js ''late''" stoppedWorld "js ''world''"]
  by (simp add: stoppedWorld_state trim_def isWhiteSpace_def js_def)

text \<open>
  C2. Starting from an empty draft, feeding any sequence of Final events leaves the draft
  equal to the trimmed, non-empty texts joined by single spaces. Every joined piece
  begins and ends with a character that is not whitespace, so no join has a double
  space, and the draft itself has no leading or trailing whitespace. The recording flag
  is not touched.
\<close>

theorem C2_finals_joined:
  assumes "currentPrompt (state w) = []"
  shows "currentPrompt (state (feedFinals ts w)) = joinedFinals ts
       \<and> isRecording (state (feedFinals ts w)) = isRecording (state w)
       \<and> (\<forall>p \<in> set (filter (\<lambda>t. t \<noteq> []) (map trim ts)).
             \<not> isWhiteSpace (hd p) \<and> \<not> isWhiteSpace (last p))
       \<and> (joinedFinals ts \<noteq> [] \<longrightarrow>
             \<not> isWhiteSpace (hd (joinedFinals ts)) \<and> \<not> isWhiteSpace (last (joinedFinals ts)))"
proof -
  have ends: "joinedFinals ts \<noteq> [] \<longrightarrow>
      \<not> isWhiteSpace (hd (joinedFinals ts)) \<and> \<not> isWhiteSpace (last (joinedFinals ts))"
    using trim_ends[of "joinedFinals ts"] by (simp add: joinedFinals_trimmed)
  have pieces: "\<forall>p \<in> set (filter (\<lambda>t. t \<noteq> []) (map trim ts)).
      \<not> isWhiteSpace (hd p) \<and> \<not> isWhiteSpace (last p)"
    using trim_ends by auto
  from feedFinals_draft[OF assms] feedFinals_recording ends pieces show ?thesis by blast
qed

text \<open>
  C2 on the recording sample world: three Final events, the second one blank.
\<close>

theorem C2_finals_joined_witness:
  "currentPrompt (state recordingWorld) = []
   \<and> isRecording (state recordingWorld)
   \<and> currentPrompt (state (feedFinals [js '' hello '', js ''   '', js ''big  world''] recordingWorld))
       = js ''hello big  world''
   \<and> isRecording (state (feedFinals [js '' hello '', js ''   '', js ''big  world''] recordingWorld))"
  using C2_finals_joined[of recordingWorld "[js '' hello '', js ''   '', js ''big  world'']"]
  by (simp add: recordingWorld_state joinedFinals_def trim_def js_def isWhiteSpace_def)

text \<open>
  C3. A Partial event overwrites \<open>lastPartial\<close> whatever it held; feeding several
  Partial events leaves exactly the world that the last one alone produces, so nothing
  accumulates; while recording (and not editing) the editor shows the trimmed draft
  joined with that one partial; and a Final event with non-blank text resets
  \<open>lastPartial\<close> to undefined, after which the preview is the trimmed draft alone.
\<close>

theorem C3_single_live_partial:
  "lastPartial (state (onLine (Some (partialEvt p)) w)) = Some (JStr p)
   \<and> (ps \<noteq> [] \<longrightarrow> feedPartials ps w = onLine (Some (partialEvt (last ps))) w)
   \<and> (isRecording (state w) \<and> \<not> isEditing (state w) \<and> trim p \<noteq> [] \<longrightarrow>
        editorText (onLine (Some (partialEvt p)) w) =
          join (js '' '') (filter (\<lambda>x. x \<noteq> []) [trim (currentPrompt (state w)), trim p])
          @ js '' '' @ [0x2026])
   \<and> (trim f \<noteq> [] \<longrightarrow>
        lastPartial (state (onLine (Some (finalEvt f)) w)) = None
        \<and> renderPromptPreview (state (onLine (Some (finalEvt f)) w))
            = Some (trim (currentPrompt (state (onLine (Some (finalEvt f)) w))))
        \<and> (\<not> isEditing (state w) \<longrightarrow>
             editorText (onLine (Some (finalEvt f)) w)
               = trim (currentPrompt (state (onLine (Some (finalEvt f)) w)))))"
proof -
  have a: "lastPartial (state (onLine (Some (partialEvt p)) w)) = Some (JStr p)"
    by (simp add: onLine_partial state_updatePromptTitle)
  have b: "ps \<noteq> [] \<longrightarrow> feedPartials ps w = onLine (Some (partialEvt (last ps))) w"
    by (simp add: feedPartials_last)
  have c: "isRecording (state w) \<and> \<not> isEditing (state w) \<and> trim p \<noteq> [] \<longrightarrow>
        editorText (onLine (Some (partialEvt p)) w) =
          join (js '' '') (filter (\<lambda>x. x \<noteq> []) [trim (currentPrompt (state w)), trim p])
          @ js '' '' @ [0x2026]"
    by (simp add: onLine_partial updatePromptTitle_def Let_def)
  have d: "trim f \<noteq> [] \<longrightarrow>
        lastPartial (state (onLine (Some (finalEvt f)) w)) = None
        \<and> renderPromptPreview (state (onLine (Some (finalEvt f)) w))
            = Some (trim (currentPrompt (state (onLine (Some (finalEvt f)) w))))
        \<and> (\<not> isEditing (state w) \<longrightarrow>
             editorText (onLine (Some (finalEvt f)) w)
               = trim (currentPrompt (state (onLine (Some (finalEvt f)) w))))"
    by (simp add: onLine_final updatePromptTitle_def Let_def renderPromptPreview_def)
  from a b c d show ?thesis by blast
qed

text \<open>
  C3 on the sample run: two Partial events, then a Final event.
\<close>

theorem C3_single_live_partial_witness:
  "isRecording (state recordingWorld) \<and> \<not> isEditing (state recordingWorld)
   \<and> trim (js ''hello'') \<noteq> [] \<and> trim (js ''hello world'') \<noteq> []
   \<and> lastPartial (state (onLine (Some (partialEvt (js ''hello''))) recordingWorld)) = Some (JStr (js ''hello''))
   \<and> feedPartials [js ''he'', js ''hello''] recordingWorld = onLine (Some (partialEvt (js ''hello''))) recordingWorld
   \<and> editorText (onLine (Some (partialEvt (js ''hello''))) recordingWorld) = js ''hello '' @ [0x2026]
   \<and> lastPartial (state previewWorld) = Some (JStr (js ''hello''))
   \<and> lastPartial (state (onLine (Some (finalEvt (js ''hello world''))) previewWorld)) = None
   \<and> editorText (onLine (Some (finalEvt (js ''hello world''))) previewWorld) = js ''hello world''"
  using C3_single_live_partial[of "js ''hello''" recordingWorld "[js ''he'', js ''hello'']" "js ''hello world''"]
        C3_single_live_partial[of "js ''hello''" previewWorld "[js ''he'', js ''hello'']" "js ''hello world''"]
  by (simp add: recordingWorld_state previewWorld_state onLine_final_state trim_def isWhiteSpace_def js_def)




text \<open>
  C5, as stated, fails. With a session active, \<^verbatim>\<open>startRecorder\<close> spawns a second
  helper and makes it the session handle.
\<close>

theorem C5_counterexample:
  "recorder (state recordingWorld) = Some 0
   \<and> length (procs recordingWorld) = 1
   \<and> length (procs (startRecorder recordingWorld)) = 2
   \<and> recorder (state (startRecorder recordingWorld)) = Some 1"
  by (simp add: startRecorder_def stopRecorder_def Let_def recordingWorld_state recordingWorld_procs
      length_kill)

text \<open>
  C5, amended. \<^verbatim>\<open>startRecorder\<close> never fails fast: it first stops the current
  recorder (SIGTERM to the active helper, handle dropped), then spawns a new helper and
  stores it as the only session handle. The R key never reaches it while recording,
  because \<^verbatim>\<open>toggleRecording\<close> stops instead.
\<close>

theorem C5_start_replaces_session:
  "procs (startRecorder w) =
     procs (stopRecorder w) @
       [\<lparr>spawnCommand = js ''node'',
         spawnArgs = buildRecorderArgs (platform w) (modelPath (state w)),
         lastStderr = [], signals = []\<rparr>]
   \<and> recorder (state (startRecorder w)) = Some (length (procs w))
   \<and> length (procs (startRecorder w)) = Suc (length (procs w))
   \<and> (recorder (state w) = Some p \<and> p < length (procs w) \<longrightarrow>
        procs (stopRecorder w) = kill p (js ''SIGTERM'') (procs w)
        \<and> signals (procs (startRecorder w) ! p) = signals (procs w ! p) @ [js ''SIGTERM''])
   \<and> (isRecording (state w) \<longrightarrow> toggleRecording w = stopRecording w)"
proof -
  have len: "length (procs (stopRecorder w)) = length (procs w)"
    by (simp add: stopRecorder_def length_kill split: option.splits)
  have pl: "platform (stopRecorder w) = platform w" "modelPath (state (stopRecorder w)) = modelPath (state w)"
    by (simp_all add: stopRecorder_def split: option.splits)
  have a: "procs (startRecorder w) =
     procs (stopRecorder w) @
       [\<lparr>spawnCommand = js ''node'',
         spawnArgs = buildRecorderArgs (platform w) (modelPath (state w)),
         lastStderr = [], signals = []\<rparr>]"
    by (simp add: startRecorder_def Let_def pl)
  have b: "recorder (state (startRecorder w)) = Some (length (procs w))"
    by (simp add: startRecorder_def Let_def len)
  have c: "length (procs (startRecorder w)) = Suc (length (procs w))"
    by (simp add: a len)
  have d: "recorder (state w) = Some p \<and> p < length (procs w) \<longrightarrow>
        procs (stopRecorder w) = kill p (js ''SIGTERM'') (procs w)
        \<and> signals (procs (startRecorder w) ! p) = signals (procs w ! p) @ [js ''SIGTERM'']"
    by (simp add: a stopRecorder_def kill_def nth_append)
  have e: "isRecording (state w) \<longrightarrow> toggleRecording w = stopRecording w"
    by (simp add: toggleRecording_def)
  from a b c d e show ?thesis by blast
qed

text \<open>
  The amended C5 on the recording sample world.
\<close>

theorem C5_start_replaces_session_witness:
  "recorder (state recordingWorld) = Some 0 \<and> 0 < length (procs recordingWorld)
   \<and> isRecording (state recordingWorld)
   \<and> signals (procs (startRecorder recordingWorld) ! 0) = [js ''SIGTERM'']
   \<and> length (procs (startRecorder recordingWorld)) = 2
   \<and> toggleRecording recordingWorld = stopRecording recordingWorld"
  using C5_start_replaces_session[of recordingWorld 0]
  by (simp add: recordingWorld_state recordingWorld_procs kill_def)

text \<open>
  C6, as stated, fails. On a file system where the model path does not exist,
  \<^verbatim>\<open>startRecording\<close> returns normally, a helper is spawned, the draft
  \<open>draft one\<close> is cleared and the machine is recording.
\<close>

theorem C6_counterexample:
  "\<not> existsSync (platform draftWorld) (modelPath (state draftWorld))
   \<and> procs draftWorld = []
   \<and> currentPrompt (state draftWorld) = js ''draft one''
   \<and> \<not> isRecording (state draftWorld)
   \<and> startRecording draftWorld = Returned (worldOf (startRecording draftWorld))
   \<and> length (procs (worldOf (startRecording draftWorld))) = 1
   \<and> currentPrompt (state (worldOf (startRecording draftWorld))) = []
   \<and> isRecording (state (worldOf (startRecording draftWorld)))"
proof -
  have "startRecording draftWorld = Returned (worldOf (startRecording draftWorld))"
    by (rule startRecording_returns)
  then show ?thesis
    by (simp add: startRecording_state startRecording_procs draftWorld_def initialWorld_def
        samplePlatform_def stopRecorder_def)
qed

text \<open>
  C6, amended. \<^verbatim>\<open>startRecording\<close> does not look at the model path: it always
  returns, resets the draft, enters Recording and spawns the helper with the model path
  among its arguments. The check is made by the helper, on the path it resolves itself:
  the model path it was passed when that is not the empty string, otherwise
  \<^verbatim>\<open>VOSK_MODEL_PATH\<close> when that is set and not empty, otherwise the default location.
  When that path does not exist the helper prints a \<open>Model path not found\<close> error
  object on stderr and exits with status 1 before loading the recogniser; otherwise it
  goes on. So a model path that is not empty and does not exist always makes the helper
  exit with status 1. Once a stderr text and that exit have reached the handlers of the
  new process, the machine is no longer recording and the status shows the text.
\<close>

theorem C6_missing_model:
  "startRecording w = Returned (worldOf (startRecording w))
   \<and> state (worldOf (startRecording w)) =
       (state w)\<lparr>isRecording := True, isEditing := False, currentPrompt := [], lastPartial := None,
                 activePromptId := None, lastRun := None, recorder := Some (length (procs w))\<rparr>
   \<and> procs (worldOf (startRecording w)) =
       procs (stopRecorder w) @
         [\<lparr>spawnCommand = js ''node'',
           spawnArgs = buildRecorderArgs (platform w) (modelPath (state w)),
           lastStderr = [], signals = []\<rparr>]
   \<and> (modelPath (state w) \<noteq> [] \<and> \<not> existsSync (platform w) (modelPath (state w)) \<longrightarrow>
        helperStartup (existsSync (platform w)) envModel dflt
            (tl (buildRecorderArgs (platform w) (modelPath (state w))))
          = HelperExit 1 (errorEvt (js ''Model path not found: '' @ modelPath (state w))))
   \<and> (trim txt \<noteq> [] \<longrightarrow>
        \<not> isRecording (state (onExit (length (procs w)) (Some 1) None
                                (onStderrData (length (procs w)) txt (worldOf (startRecording w)))))
        \<and> statusText (onExit (length (procs w)) (Some 1) None
                         (onStderrData (length (procs w)) txt (worldOf (startRecording w))))
            = js ''Recording stopped ('' @ trim txt @ js '').'')
   \<and> helperStartup (existsSync (platform w)) envModel dflt
          (tl (buildRecorderArgs (platform w) (modelPath (state w))))
        = (let hp = (if modelPath (state w) \<noteq> [] then modelPath (state w)
                     else case envModel of
                            Some e \<Rightarrow> if e \<noteq> [] then e else dflt
                          | None \<Rightarrow> dflt)
           in if \<not> existsSync (platform w) hp
              then HelperExit 1 (errorEvt (js ''Model path not found: '' @ hp))
              else HelperContinues hp)"
proof -
  have len: "length (procs (stopRecorder w)) = length (procs w)"
    by (simp add: stopRecorder_def length_kill split: option.splits)
  have e: "trim txt \<noteq> [] \<longrightarrow>
        \<not> isRecording (state (onExit (length (procs w)) (Some 1) None
                                (onStderrData (length (procs w)) txt (worldOf (startRecording w)))))
        \<and> statusText (onExit (length (procs w)) (Some 1) None
                         (onStderrData (length (procs w)) txt (worldOf (startRecording w))))
            = js ''Recording stopped ('' @ trim txt @ js '').''"
    by (simp add: onExit_def onStderrData_def Let_def startRecording_state startRecording_procs len
        exitDetail_def nth_append)
  from startRecording_returns startRecording_state startRecording_procs
    helper_rejects_missing_model e helper_on_recorder_args
  show ?thesis by blast
qed

text \<open>
  The amended C6 on the sample world, whose file system has no model directory, and on
  a world whose model path is the empty string while the default location exists: there
  the helper goes on with the default.
\<close>

theorem C6_missing_model_witness:
  "modelPath (state draftWorld) \<noteq> []
   \<and> \<not> existsSync (platform draftWorld) (modelPath (state draftWorld))
   \<and> trim (js ''Model path not found'') \<noteq> []
   \<and> isRecording (state (worldOf (startRecording draftWorld)))
   \<and> length (procs (worldOf (startRecording draftWorld))) = 1
   \<and> helperStartup (existsSync (platform draftWorld)) None (js ''/home/u/.local/share/vosk/model'')
        [js ''--model'', js ''/models/vosk'', js ''--sample-rate'', js ''16000'']
       = HelperExit 1 (errorEvt (js ''Model path not found: /models/vosk''))
   \<and> statusText (onExit 0 (Some 1) None
                    (onStderrData 0 (js ''Model path not found'') (worldOf (startRecording draftWorld))))
       = js ''Recording stopped (Model path not found).''
   \<and> modelPath (state emptyPathWorld) = []
   \<and> \<not> existsSync (platform emptyPathWorld) (modelPath (state emptyPathWorld))
   \<and> helperStartup (existsSync (platform emptyPathWorld)) (Some []) (js ''/home/u/.local/share/vosk/model'')
        [js ''--model'', [], js ''--sample-rate'', js ''16000'']
       = HelperContinues (js ''/home/u/.local/share/vosk/model'')"
  using C6_missing_model[of draftWorld None "js ''/home/u/.local/share/vosk/model''" "js ''Model path not found''"]
        C6_missing_model[of emptyPathWorld "Some []" "js ''/home/u/.local/share/vosk/model''" "js ''Model path not found''"]
  by (simp add: draftWorld_def emptyPathWorld_def resolvedModelPath_def initialWorld_def
      samplePlatform_def stopRecorder_def buildRecorderArgs_def trim_def isWhiteSpace_def js_def)

text \<open>
  C7. \<^verbatim>\<open>stopRecording\<close> always returns; calling it again on the world it leaves
  returns that same world, so there is no second transition and no second signal; when
  the machine is not recording it changes nothing at all; it never changes the draft;
  and it leaves no session handle when it acted. \<^verbatim>\<open>stopRecorder\<close> is idempotent
  too, changes nothing when there is no handle, and never changes the draft.
\<close>

theorem C7_stop_idempotent:
  "stopRecording w = Returned (worldOf (stopRecording w))
   \<and> stopRecording (worldOf (stopRecording w)) = stopRecording w
   \<and> (\<not> isRecording (state w) \<longrightarrow> stopRecording w = Returned w)
   \<and> currentPrompt (state (worldOf (stopRecording w))) = currentPrompt (state w)
   \<and> recorder (state (worldOf (stopRecording w)))
       = (if isRecording (state w) then None else recorder (state w))
   \<and> stopRecorder (stopRecorder w) = stopRecorder w
   \<and> (recorder (state w) = None \<longrightarrow> stopRecorder w = w)
   \<and> currentPrompt (state (stopRecorder w)) = currentPrompt (state w)"
proof -
  have a: "stopRecording w = Returned (worldOf (stopRecording w))"
    by (rule stopRecording_returns)
  have n: "\<not> isRecording (state (worldOf (stopRecording w)))"
    by (simp add: stopRecording_state)
  have b: "stopRecording (worldOf (stopRecording w)) = stopRecording w"
    using n a by (simp add: stopRecording_def[of "worldOf (stopRecording w)"])
  have c: "\<not> isRecording (state w) \<longrightarrow> stopRecording w = Returned w"
    by (simp add: stopRecording_def)
  have d: "currentPrompt (state (worldOf (stopRecording w))) = currentPrompt (state w)"
    by (simp add: stopRecording_state)
  have e: "recorder (state (worldOf (stopRecording w)))
       = (if isRecording (state w) then None else recorder (state w))"
    by (simp add: stopRecording_state)
  have f: "recorder (state w) = None \<longrightarrow> stopRecorder w = w"
    by (simp add: stopRecorder_def)
  have g: "currentPrompt (state (stopRecorder w)) = currentPrompt (state w)"
    by (simp add: stopRecorder_def split: option.splits)
  from a b c d e f g stopRecorder_idem show ?thesis by blast
qed

text \<open>
  C7 on the recording and on the idle sample world.
\<close>

theorem C7_stop_idempotent_witness:
  "isRecording (state recordingWorld)
   \<and> stopRecording (worldOf (stopRecording recordingWorld)) = stopRecording recordingWorld
   \<and> \<not> isRecording (state initialWorld)
   \<and> stopRecording initialWorld = Returned initialWorld
   \<and> recorder (state initialWorld) = None
   \<and> stopRecorder initialWorld = initialWorld
   \<and> recorder (state (worldOf (stopRecording recordingWorld))) = None"
  using C7_stop_idempotent[of recordingWorld] C7_stop_idempotent[of initialWorld]
  by (simp add: recordingWorld_state initialWorld_def)

text \<open>
  C8, as stated, fails in its description of the diagnostic. While recording, with
  \<open>boom\<close> as the last stderr text, an exit with code 1 produces the message
  \<open>Recording stopped (boom).\<close>: the exit code is not part of it.
\<close>

theorem C8_counterexample:
  "isRecording (state faultWorld)
   \<and> lastStderr (procs faultWorld ! 0) = js ''boom''
   \<and> statusText (onExit 0 (Some 1) None faultWorld) = js ''Recording stopped (boom).''
   \<and> \<not> sublist (showNat 1) (statusText (onExit 0 (Some 1) None faultWorld))"
proof -
  have 1: "isRecording (state faultWorld)" by (simp add: faultWorld_state recordingWorld_state)
  have 2: "lastStderr (procs faultWorld ! 0) = js ''boom''" by (simp add: faultWorld_procs)
  have 3: "statusText (onExit 0 (Some 1) None faultWorld) = js ''Recording stopped (boom).''"
    by (simp add: onExit_def Let_def 1 faultWorld_procs exitDetail_def js_def)
  have 4: "\<not> sublist (showNat 1) (js ''Recording stopped (boom).'')"
    by (simp add: showNat_digits js_def sublist_Cons_right)
  from 1 2 3 4 show ?thesis by simp
qed

text \<open>
  C8, amended. When the helper exits while the machine is recording, the only change to
  the application state is that \<open>isRecording\<close> becomes false, so the draft is kept;
  the status becomes the non-empty message \<open>Recording stopped (d).\<close>, where \<open>d\<close>
  is the last stderr text when there is one, and otherwise the exit code, or else the
  signal.
\<close>

theorem C8_forced_stop:
  assumes "isRecording (state w)" and "p < length (procs w)"
  shows "state (onExit p code signal w) = (state w)\<lparr>isRecording := False\<rparr>
       \<and> statusText (onExit p code signal w) =
           js ''Recording stopped ('' @ exitDetail (lastStderr (procs w ! p)) code signal @ js '').''
       \<and> statusText (onExit p code signal w) \<noteq> []
       \<and> (lastStderr (procs w ! p) \<noteq> [] \<longrightarrow>
            exitDetail (lastStderr (procs w ! p)) code signal = lastStderr (procs w ! p))
       \<and> (lastStderr (procs w ! p) = [] \<longrightarrow>
            exitDetail (lastStderr (procs w ! p)) (Some c) signal = js ''code '' @ showNat c
            \<and> (sg \<noteq> [] \<longrightarrow> exitDetail (lastStderr (procs w ! p)) None (Some sg) = js ''signal '' @ sg))
       \<and> procs (onExit p code signal w) = procs w
       \<and> db (onExit p code signal w) = db w"
  using assms by (simp add: onExit_def Let_def exitDetail_def js_def)

text \<open>
  The amended C8 on the scenario of the specification: recording with draft
  \<open>draft one\<close>, the helper is killed by a signal.
\<close>

theorem C8_forced_stop_witness:
  "isRecording (state faultWorld) \<and> 0 < length (procs faultWorld)
   \<and> currentPrompt (state faultWorld) = js ''draft one''
   \<and> \<not> isRecording (state (onExit 0 None (Some (js ''SIGKILL'')) faultWorld))
   \<and> \<not> isEditing (state (onExit 0 None (Some (js ''SIGKILL'')) faultWorld))
   \<and> currentPrompt (state (onExit 0 None (Some (js ''SIGKILL'')) faultWorld)) = js ''draft one''
   \<and> statusText (onExit 0 None (Some (js ''SIGKILL'')) faultWorld) = js ''Recording stopped (boom).''"
  using C8_forced_stop[of faultWorld 0 None "Some (js ''SIGKILL'')" 0 "js ''SIGKILL''"]
  by (simp add: faultWorld_state faultWorld_procs recordingWorld_state exitDetail_def js_def)

text \<open>
  C9 fails on the code. The user presses R three times: start, stop, start again before
  the first helper has exited. The first helper then exits with code 0, as it does on
  SIGTERM. Its exit handler finds \<open>isRecording\<close> true and forces the new session out
  of Recording with a diagnostic, although the termination was requested by the stop
  and the second helper was never signalled and is still the session handle. Without
  the restart the same exit is silent: on the stopped sample world it changes nothing.
\<close>

theorem C9_stale_exit_hits_new_session:
  "isRecording (state restartedWorld)
   \<and> recorder (state restartedWorld) = Some 1
   \<and> signals (procs restartedWorld ! 0) = [js ''SIGTERM'']
   \<and> signals (procs restartedWorld ! 1) = []
   \<and> \<not> isRecording (state (onExit 0 (Some 0) None restartedWorld))
   \<and> statusText (onExit 0 (Some 0) None restartedWorld) = js ''Recording stopped (code 0).''
   \<and> recorder (state (onExit 0 (Some 0) None restartedWorld)) = Some 1
   \<and> signals (procs (onExit 0 (Some 0) None restartedWorld) ! 1) = []
   \<and> onExit 0 (Some 0) None stoppedWorld = stoppedWorld"
  by (simp add: onExit_def Let_def restartedWorld_state restartedWorld_procs exitDetail_def
      showNat_digits stoppedWorld_state js_def)

text \<open>
  C10. When the draft trims to the empty string, \<^verbatim>\<open>handleSave\<close> only sets the
  status text: the store and the application state (active prompt id, creation
  timestamp, draft) are unchanged.
\<close>

theorem C10_empty_save:
  assumes "trim (currentPrompt (state w)) = []"
  shows "handleSave w = Returned (w\<lparr>statusText := nothingToSave\<rparr>)
       \<and> db (worldOf (handleSave w)) = db w
       \<and> state (worldOf (handleSave w)) = state w"
  using assms by (simp add: handleSave_def)

text \<open>
  C10 on a world with a blank draft and an active saved prompt.
\<close>

theorem C10_empty_save_witness:
  "trim (currentPrompt (state savedWorld)) = []
   \<and> handleSave savedWorld = Returned (savedWorld\<lparr>statusText := nothingToSave\<rparr>)
   \<and> prompts (db (worldOf (handleSave savedWorld)))
       = [\<lparr>rec_id = 1, rec_createdAt = js ''2023-12-31T00:00:00.000Z'', rec_text = js ''old text''\<rparr>]
   \<and> activePromptId (state (worldOf (handleSave savedWorld))) = Some 1"
proof -
  have h: "trim (currentPrompt (state savedWorld)) = []"
    by (simp add: savedWorld_def initialWorld_def trim_def isWhiteSpace_def js_def)
  from C10_empty_save[OF h] h show ?thesis
    by (simp add: savedWorld_def initialWorld_def)
qed

end
